theory Spec2Isabelle
  imports Complex_Main "HOL-Library.Word"
begin

section \<open>Stereographic re-projection of an image (main.py)\<close>

text \<open>
  The program computes on IEEE floating-point numbers. A float64 value is a \<open>real\<close> here
  and a float64 operation the exact operation, so the rounding of double precision in the
  last place and its overflow are outside the model. The single-precision array that
  \<open>projection\<close> builds is modelled: its elements are rounded to float32 by \<open>f32\<close>, and so
  are the squares and the sum that the compiled code computes in single precision from
  them. Python integers are \<open>int\<close>; the result of \<open>round\<close> in compiled code is an int64.
  Everything that can fail in the source is a branch of the model returning an \<open>error\<close>.
\<close>

subsection \<open>Data model\<close>

text \<open>A numpy array of shape (3,) and one of shape (3, 3), the latter as its rows.\<close>

type_synonym vec3 = "real \<times> real \<times> real"
type_synonym mat3 = "vec3 \<times> vec3 \<times> vec3"

text \<open>
  \<open>ZeroDivisionError\<close>: a division or a modulo by zero in the compiled functions.
  \<open>IndexError\<close>: an array index out of range. \<open>ValueError\<close>: a negative dimension
  given to \<open>np.zeros\<close>.
\<close>

datatype error = ZeroDivisionError | IndexError | ValueError

subsection \<open>Library functions the source calls\<close>

text \<open>
  Rounding to the nearest integer, a tie going to the even neighbour: Python's \<open>round\<close>
  with one argument and the \<open>rint\<close> instruction that the compiled code uses for it.
\<close>

definition py_round :: "real \<Rightarrow> int" where
  "py_round t =
     (let f = \<lfloor>t\<rfloor>; d = t - of_int f
      in if d < 1 / 2 then f
         else if 1 / 2 < d then f + 1
         else if even f then f else f + 1)"

text \<open>
  \<open>round\<close> in the compiled functions, on a float64 that may be NaN (\<open>None\<close>): \<open>rint\<close>
  followed by the conversion to int64. The functions are compiled without an error model
  for this conversion; for NaN and for a value outside the int64 range the conversion
  instruction of x86-64 delivers \<open>- 2\<^sup>6\<^sup>3\<close>, and no exception is raised.
\<close>

definition round_int64 :: "real option \<Rightarrow> int" where
  "round_int64 v =
     (case v of
        None \<Rightarrow> - (2 ^ 63)
      | Some t \<Rightarrow>
          (let n = py_round t
           in if - (2 ^ 63) \<le> n \<and> n < 2 ^ 63 then n else - (2 ^ 63)))"

text \<open>
  The storage of a float64 in a float32 (\<open>dtype=np.float32\<close>), and the rounding of a
  single-precision operation: the nearest number with a significand of 24 bits, a tie
  going to the even significand. The exponent range of float32 is not modelled.
\<close>

definition f32 :: "real \<Rightarrow> real" where
  "f32 t =
     (if t = 0 then 0
      else (let e = \<lfloor>log 2 \<bar>t\<bar>\<rfloor>;
                ulp = 2 powr (of_int e - 23)
            in of_int (py_round (t / ulp)) * ulp))"

text \<open>\<open>np.arccos\<close>: defined on \<open>[-1, 1]\<close>; NaN (here \<open>None\<close>) elsewhere.\<close>

definition np_arccos :: "real \<Rightarrow> real option" where
  "np_arccos t = (if - 1 \<le> t \<and> t \<le> 1 then Some (arccos t) else None)"

text \<open>\<open>np.arctan2 y x\<close>: the angle of the point \<open>(x, y)\<close>, in \<open>(-pi, pi]\<close>.\<close>

definition np_arctan2 :: "real \<Rightarrow> real \<Rightarrow> real" where
  "np_arctan2 y x =
     (if 0 < x then arctan (y / x)
      else if x < 0 then (if 0 \<le> y then arctan (y / x) + pi else arctan (y / x) - pi)
      else if 0 < y then pi / 2
      else if y < 0 then - (pi / 2)
      else 0)"

subsection \<open>The functions of main.py\<close>

text \<open>
  \<open>get_point_on_sphere\<close>, lines 42-55, on a float64 array. The third component of the
  argument is unpacked and not used. The division raises when the denominator is zero.
\<close>

definition get_point_on_sphere :: "vec3 \<Rightarrow> real \<Rightarrow> error + vec3" where
  "get_point_on_sphere point r =
     (case point of (x, y, z) \<Rightarrow>
        if x ^ 2 + y ^ 2 + r ^ 2 = 0 then Inl ZeroDivisionError
        else (let k = 2 * r ^ 2 / (x ^ 2 + y ^ 2 + r ^ 2)
              in Inr (k * x, k * y, (k - 1) * r)))"

text \<open>
  The same lines 42-55 on a float32 array, which is how \<open>projection\<close> calls the function:
  the compiler specialises it to the element type of its argument. There \<open>x\<close> and \<open>y\<close>
  are float32, \<open>x**2\<close>, \<open>y**2\<close> and \<open>x**2 + y**2\<close> are single-precision operations, and
  everything that involves the float64 \<open>r\<close> is double precision.
\<close>

definition get_point_on_sphere_f32 :: "vec3 \<Rightarrow> real \<Rightarrow> error + vec3" where
  "get_point_on_sphere_f32 point r =
     (case point of (x, y, z) \<Rightarrow>
        let s = f32 (f32 (x ^ 2) + f32 (y ^ 2))
        in if s + r ^ 2 = 0 then Inl ZeroDivisionError
           else (let k = 2 * r ^ 2 / (s + r ^ 2)
                 in Inr (k * x, k * y, (k - 1) * r)))"

text \<open>\<open>np.dot\<close> of a 3x3 matrix and a vector.\<close>

definition np_dot :: "mat3 \<Rightarrow> vec3 \<Rightarrow> vec3" where
  "np_dot m v =
     (case m of ((a11, a12, a13), (a21, a22, a23), (a31, a32, a33)) \<Rightarrow>
      case v of (x, y, z) \<Rightarrow>
        (a11 * x + a12 * y + a13 * z,
         a21 * x + a22 * y + a23 * z,
         a31 * x + a32 * y + a33 * z))"

text \<open>\<open>axis_rotate\<close>, lines 57-69.\<close>

definition axis_rotate :: "vec3 \<Rightarrow> mat3 \<Rightarrow> vec3" where
  "axis_rotate point rot_mat = np_dot rot_mat point"

text \<open>
  \<open>get_pix_on_img\<close>, lines 71-93: the clamp of \<open>z\<close> from above (there is none from
  below), the two angles, and the two roundings followed by the modulo. Where the
  quotient \<open>z / r\<close> is outside \<open>[-1, 1]\<close> the row fraction is NaN, and the row is what
  the conversion of NaN leaves, taken modulo \<open>h_img\<close>.
\<close>

definition get_pix_on_img :: "vec3 \<Rightarrow> real \<Rightarrow> int \<Rightarrow> int \<Rightarrow> error + (int \<times> int)" where
  "get_pix_on_img point r h_img w_img =
     (case point of (x, y, z0) \<Rightarrow>
        let z = (if r < z0 then r else z0) in
        if r = 0 then Inl ZeroDivisionError
        else (let row = map_option (\<lambda>a. a / pi) (np_arccos (z / r));
                  col = np_arctan2 y x / 2 / pi + 0.5
              in if h_img = 0 then Inl ZeroDivisionError
                 else if w_img = 0 then Inl ZeroDivisionError
                 else Inr (round_int64 (map_option (\<lambda>t. t * of_int h_img) row) mod h_img,
                           round_int64 (Some (col * of_int w_img)) mod w_img)))"

text \<open>
  \<open>projection\<close>, lines 95-119. The module-level names it reads (\<open>offset_ver\<close>,
  \<open>offset_hor\<close>, \<open>rot_mat\<close>) are its first three arguments here. Line 116 stores the
  plane point in a float32 array.
\<close>

definition projection ::
  "real \<Rightarrow> real \<Rightarrow> mat3 \<Rightarrow> int \<times> int \<Rightarrow> real \<Rightarrow> int \<Rightarrow> int \<Rightarrow> int \<Rightarrow> int \<Rightarrow> error + (int \<times> int)" where
  "projection offset_ver offset_hor rot_mat pix_proj r h_img w_img h_proj w_proj =
     (case pix_proj of (row, col) \<Rightarrow>
        let x = of_int row + (offset_ver - 0.5) * of_int h_proj;
            y = of_int col + (offset_hor - 0.5) * of_int w_proj;
            z = 0;
            Q = (f32 x, f32 y, f32 z)
        in (case get_point_on_sphere_f32 Q r of
              Inl e \<Rightarrow> Inl e
            | Inr P \<Rightarrow> get_pix_on_img (axis_rotate P rot_mat) r h_img w_img))"

text \<open>The rotation matrix built at lines 142-160 from the three angles.\<close>

definition rot_mat :: "real \<Rightarrow> real \<Rightarrow> real \<Rightarrow> mat3" where
  "rot_mat alpha beta gamma =
     ((cos gamma * cos beta,
       cos gamma * sin beta * sin alpha - sin gamma * cos alpha,
       cos gamma * sin beta * cos alpha + sin gamma * sin alpha),
      (sin gamma * cos beta,
       sin gamma * sin beta * sin alpha + cos gamma * cos alpha,
       sin gamma * sin beta * cos alpha - cos gamma * sin alpha),
      (- sin beta,
       cos beta * sin alpha,
       cos beta * cos alpha))"

subsection \<open>The sampling loop of the main block\<close>

text \<open>
  The parameters at lines 14-38. The rotation angles are in radians; the source converts
  them from degrees before use.
\<close>

record config =
  cfg_prevent_scaling :: bool
  cfg_w_proj :: int
  cfg_h_proj :: int
  cfg_offset_hor :: real
  cfg_offset_ver :: real
  cfg_scale :: real
  cfg_alpha :: real
  cfg_beta :: real
  cfg_gamma :: real

text \<open>An RGB image: an array of shape (h, w, 3) of bytes, as the list of its rows.\<close>

type_synonym pixel = "8 word \<times> 8 word \<times> 8 word"
type_synonym image = "pixel list list"

text \<open>\<open>arr.shape[1]\<close>; every row of an array has this length.\<close>

definition img_width :: "image \<Rightarrow> nat" where
  "img_width img = (case img of [] \<Rightarrow> 0 | line # _ \<Rightarrow> length line)"

definition rectangular :: "image \<Rightarrow> bool" where
  "rectangular img = list_all (\<lambda>line. length line = img_width img) img"

text \<open>\<open>np.zeros((h, w, 3), dtype=np.uint8)\<close>: a negative dimension raises.\<close>

definition np_zeros :: "int \<Rightarrow> int \<Rightarrow> error + image" where
  "np_zeros h w =
     (if h < 0 \<or> w < 0 then Inl ValueError
      else Inr (replicate (nat h) (replicate (nat w) (0, 0, 0))))"

text \<open>\<open>np.ndindex(h, w)\<close>: all index pairs, in row-major order.\<close>

definition np_ndindex :: "nat \<Rightarrow> nat \<Rightarrow> (nat \<times> nat) list" where
  "np_ndindex h w = List.product [0..<h] [0..<w]"

text \<open>
  \<open>arr_img[pix_img]\<close>: numpy indexing by a pair of integers. A negative index counts
  from the end; an index out of range raises.
\<close>

definition img_get :: "image \<Rightarrow> int \<times> int \<Rightarrow> error + pixel" where
  "img_get img pix =
     (case pix of (row, col) \<Rightarrow>
        let h = int (length img);
            w = int (img_width img);
            i = (if row < 0 then row + h else row);
            j = (if col < 0 then col + w else col)
        in if i < 0 \<or> h \<le> i \<or> j < 0 \<or> w \<le> j then Inl IndexError
           else Inr (img ! nat i ! nat j))"

text \<open>
  \<open>arr_proj[pix_proj] = v\<close> for an index pair produced by \<open>np.ndindex\<close> over the shape
  of \<open>arr_proj\<close> itself, hence in range.
\<close>

definition img_set :: "image \<Rightarrow> nat \<times> nat \<Rightarrow> pixel \<Rightarrow> image" where
  "img_set img pix v = (case pix of (i, j) \<Rightarrow> img[i := (img ! i)[j := v]])"

text \<open>
  The loop at lines 166-169 over the remaining index pairs. Its state is \<open>arr_proj\<close>
  together with the list of the assignments \<open>arr_proj[pix_proj] = v\<close> made so far, in
  the order in which they were made; the list is not a variable of the source but the
  record of its writes. An exception leaves the loop. The progress bar is not modelled.
\<close>

type_synonym writes = "((nat \<times> nat) \<times> pixel) list"

fun sample_loop ::
  "real \<Rightarrow> real \<Rightarrow> mat3 \<Rightarrow> real \<Rightarrow> int \<Rightarrow> int \<Rightarrow> int \<Rightarrow> int \<Rightarrow> image \<Rightarrow>
   (nat \<times> nat) list \<Rightarrow> image \<times> writes \<Rightarrow> error + (image \<times> writes)" where
  "sample_loop offset_ver offset_hor rot r h_img w_img h_proj w_proj arr_img [] state =
     Inr state"
| "sample_loop offset_ver offset_hor rot r h_img w_img h_proj w_proj arr_img
     (pix_proj # rest) state =
     (case projection offset_ver offset_hor rot (int (fst pix_proj), int (snd pix_proj))
             r h_img w_img h_proj w_proj of
        Inl e \<Rightarrow> Inl e
      | Inr pix_img \<Rightarrow>
          (case img_get arr_img pix_img of
             Inl e \<Rightarrow> Inl e
           | Inr v \<Rightarrow>
               sample_loop offset_ver offset_hor rot r h_img w_img h_proj w_proj arr_img
                 rest (img_set (fst state) pix_proj v, snd state @ [(pix_proj, v)])))"

text \<open>
  The main block, lines 122-169, from the decoded source image to the filled output
  array and the record of the writes; loading and saving the files are outside the
  model.
\<close>

definition main :: "config \<Rightarrow> image \<Rightarrow> error + (image \<times> writes)" where
  "main cfg arr_img =
     (let h_img = int (length arr_img);
          w_img = int (img_width arr_img);
          h_proj = (if cfg_prevent_scaling cfg then h_img else cfg_h_proj cfg);
          w_proj = (if cfg_prevent_scaling cfg then w_img else cfg_w_proj cfg)
      in case np_zeros h_proj w_proj of
           Inl e \<Rightarrow> Inl e
         | Inr arr_proj \<Rightarrow>
             let r = of_int (min h_proj w_proj) / 10 * cfg_scale cfg;
                 rot = rot_mat (cfg_alpha cfg) (cfg_beta cfg) (cfg_gamma cfg)
             in sample_loop (cfg_offset_ver cfg) (cfg_offset_hor cfg) rot r
                  h_img w_img h_proj w_proj arr_img
                  (np_ndindex (nat h_proj) (nat w_proj)) (arr_proj, []))"

subsection \<open>Notions of the specification\<close>

text \<open>The Euclidean norm and distance of points in space.\<close>

definition norm3 :: "vec3 \<Rightarrow> real" where
  "norm3 p = (case p of (x, y, z) \<Rightarrow> sqrt (x ^ 2 + y ^ 2 + z ^ 2))"


text \<open>The product of two 3x3 matrices, the transpose and the identity matrix.\<close>

definition mat_col :: "mat3 \<Rightarrow> nat \<Rightarrow> vec3" where
  "mat_col m i =
     (case m of ((a11, a12, a13), (a21, a22, a23), (a31, a32, a33)) \<Rightarrow>
        if i = 0 then (a11, a21, a31)
        else if i = 1 then (a12, a22, a32)
        else (a13, a23, a33))"

definition mat_transpose :: "mat3 \<Rightarrow> mat3" where
  "mat_transpose m = (mat_col m 0, mat_col m 1, mat_col m 2)"

definition mat_mul :: "mat3 \<Rightarrow> mat3 \<Rightarrow> mat3" where
  "mat_mul a b = mat_transpose (np_dot a (mat_col b 0), np_dot a (mat_col b 1), np_dot a (mat_col b 2))"

definition mat_identity :: mat3 where
  "mat_identity = ((1, 0, 0), (0, 1, 0), (0, 0, 1))"

text \<open>The standard rotation matrices about the three coordinate axes.\<close>

definition Rx :: "real \<Rightarrow> mat3" where
  "Rx t = ((1, 0, 0), (0, cos t, - sin t), (0, sin t, cos t))"

definition Ry :: "real \<Rightarrow> mat3" where
  "Ry t = ((cos t, 0, sin t), (0, 1, 0), (- sin t, 0, cos t))"

definition Rz :: "real \<Rightarrow> mat3" where
  "Rz t = ((cos t, - sin t, 0), (sin t, cos t, 0), (0, 0, 1))"






text \<open>
  The output array as a function of the configuration and the source image alone: at
  every output coordinate the source colour at the projection of that coordinate.
\<close>

definition source_colour ::
  "real \<Rightarrow> real \<Rightarrow> mat3 \<Rightarrow> real \<Rightarrow> int \<Rightarrow> int \<Rightarrow> int \<Rightarrow> int \<Rightarrow> image \<Rightarrow> nat \<times> nat \<Rightarrow> pixel" where
  "source_colour offset_ver offset_hor rot r h_img w_img h_proj w_proj arr_img p =
     (case projection offset_ver offset_hor rot (int (fst p), int (snd p))
             r h_img w_img h_proj w_proj of
        Inl e \<Rightarrow> (0, 0, 0)
      | Inr pix_img \<Rightarrow> (case img_get arr_img pix_img of Inl e \<Rightarrow> (0, 0, 0) | Inr v \<Rightarrow> v))"

definition sampled_image ::
  "real \<Rightarrow> real \<Rightarrow> mat3 \<Rightarrow> real \<Rightarrow> int \<Rightarrow> int \<Rightarrow> int \<Rightarrow> int \<Rightarrow> image \<Rightarrow> image" where
  "sampled_image offset_ver offset_hor rot r h_img w_img h_proj w_proj arr_img =
     map (\<lambda>i. map (\<lambda>j. source_colour offset_ver offset_hor rot r h_img w_img h_proj w_proj
                          arr_img (i, j))
                [0..<nat w_proj])
         [0..<nat h_proj]"

section \<open>The sphere intersector\<close>

subsection \<open>Auxiliary facts\<close>

lemma sphere_denominator_pos: "0 < r \<Longrightarrow> 0 < x ^ 2 + y ^ 2 + r ^ 2" for r :: real
  by (simp add: add_nonneg_pos)

lemma k_times_den:
  fixes x y r :: real
  assumes "0 < r"
  shows "2 * r ^ 2 / (x ^ 2 + y ^ 2 + r ^ 2) * (x ^ 2 + y ^ 2 + r ^ 2) = 2 * r ^ 2"
  using sphere_denominator_pos[OF assms, of x y] by simp

lemma on_sphere_poly:
  fixes k x y r :: real
  assumes "k * (x ^ 2 + y ^ 2 + r ^ 2) = 2 * r ^ 2"
  shows "(k * x) ^ 2 + (k * y) ^ 2 + ((k - 1) * r) ^ 2 = r ^ 2"
  using assms by algebra


lemma sq_norm_z_bound:
  fixes x y z r :: real
  assumes "x ^ 2 + y ^ 2 + z ^ 2 = r ^ 2" "0 < r"
  shows "- r \<le> z \<and> z \<le> r"
proof -
  have "z ^ 2 \<le> r ^ 2" using assms(1) by (smt (verit) zero_le_power2)
  then have "\<bar>z\<bar> \<le> r" using assms(2) by (simp add: abs_le_square_iff [symmetric])
  then show ?thesis by auto
qed

lemma get_point_on_sphere_props:
  assumes "0 < r"
  shows "\<exists>px py pz. get_point_on_sphere (x, y, z) r = Inr (px, py, pz) \<and>
           px ^ 2 + py ^ 2 + pz ^ 2 = r ^ 2 \<and> - r < pz \<and> pz \<le> r"
proof -
  let ?D = "x ^ 2 + y ^ 2 + r ^ 2"
  let ?k = "2 * r ^ 2 / ?D"
  have pos: "0 < ?D" using assms by (rule sphere_denominator_pos)
  have kD: "?k * ?D = 2 * r ^ 2" using assms by (rule k_times_den)
  have eq: "get_point_on_sphere (x, y, z) r = Inr (?k * x, ?k * y, (?k - 1) * r)"
    using pos by (simp add: get_point_on_sphere_def Let_def)
  have sph: "(?k * x) ^ 2 + (?k * y) ^ 2 + ((?k - 1) * r) ^ 2 = r ^ 2"
    using kD by (rule on_sphere_poly)
  have kpos: "0 < ?k" using pos assms by simp
  have "- r < (?k - 1) * r"
  proof -
    have "0 < ?k * r" using kpos assms by (rule mult_pos_pos)
    then show ?thesis by (simp add: algebra_simps)
  qed
  moreover have "(?k - 1) * r \<le> r"
    using sq_norm_z_bound [OF sph assms] by simp
  ultimately show ?thesis using eq sph by blast
qed




subsection \<open>The formula\<close>



subsection \<open>The two poles\<close>




section \<open>The rotation matrix\<close>

subsection \<open>Auxiliary facts\<close>

lemma rot_poly:
  fixes ca sa cb sb cg sg x y z :: real
  assumes a: "sa ^ 2 + ca ^ 2 = 1" and b: "sb ^ 2 + cb ^ 2 = 1" and g: "sg ^ 2 + cg ^ 2 = 1"
  shows "(cg * cb * x + (cg * sb * sa - sg * ca) * y + (cg * sb * ca + sg * sa) * z) ^ 2
       + (sg * cb * x + (sg * sb * sa + cg * ca) * y + (sg * sb * ca - cg * sa) * z) ^ 2
       + (- sb * x + cb * sa * y + cb * ca * z) ^ 2 = x ^ 2 + y ^ 2 + z ^ 2"
  using assms by algebra

lemma rot_sq_norm:
  "np_dot (rot_mat a b g) (x, y, z) = (x', y', z') \<Longrightarrow> x' ^ 2 + y' ^ 2 + z' ^ 2 = x ^ 2 + y ^ 2 + z ^ 2"
  using rot_poly [OF sin_cos_squared_add [of a] sin_cos_squared_add [of b] sin_cos_squared_add [of g], of x y z]
  by (auto simp: np_dot_def rot_mat_def)

lemma rot_mat_is_product: "rot_mat a b g = mat_mul (Rz g) (mat_mul (Ry b) (Rx a))"
  by (simp add: rot_mat_def mat_mul_def mat_transpose_def mat_col_def np_dot_def Rx_def Ry_def Rz_def algebra_simps)

lemma rot_mat_zero: "rot_mat 0 0 0 = mat_identity"
  by (simp add: rot_mat_def mat_identity_def)

lemma ortho_poly:
  fixes ca sa cb sb cg sg :: real
  assumes a: "sa ^ 2 + ca ^ 2 = 1" and b: "sb ^ 2 + cb ^ 2 = 1" and g: "sg ^ 2 + cg ^ 2 = 1"
  shows "cg * cb * (cg * cb) + sg * cb * (sg * cb) + - sb * - sb = 1"
    and "cg * cb * (cg * sb * sa - sg * ca) + sg * cb * (sg * sb * sa + cg * ca) + - sb * (cb * sa) = 0"
    and "cg * cb * (cg * sb * ca + sg * sa) + sg * cb * (sg * sb * ca - cg * sa) + - sb * (cb * ca) = 0"
    and "(cg * sb * sa - sg * ca) * (cg * sb * sa - sg * ca) + (sg * sb * sa + cg * ca) * (sg * sb * sa + cg * ca) + cb * sa * (cb * sa) = 1"
    and "(cg * sb * sa - sg * ca) * (cg * sb * ca + sg * sa) + (sg * sb * sa + cg * ca) * (sg * sb * ca - cg * sa) + cb * sa * (cb * ca) = 0"
    and "(cg * sb * ca + sg * sa) * (cg * sb * ca + sg * sa) + (sg * sb * ca - cg * sa) * (sg * sb * ca - cg * sa) + cb * ca * (cb * ca) = 1"
  using assms by algebra+

lemma rot_mat_orthonormal: "mat_mul (mat_transpose (rot_mat a b g)) (rot_mat a b g) = mat_identity"
  using ortho_poly [OF sin_cos_squared_add [of a] sin_cos_squared_add [of b] sin_cos_squared_add [of g]]
  apply (simp add: rot_mat_def mat_mul_def mat_transpose_def mat_col_def np_dot_def mat_identity_def)
  apply (simp add: mult.commute)
  done

lemma rotated_z_bounds:
  assumes "0 < r" "px ^ 2 + py ^ 2 + pz ^ 2 = r ^ 2"
  shows "\<exists>x' y' z'. axis_rotate (px, py, pz) (rot_mat a b g) = (x', y', z') \<and>
           x' ^ 2 + y' ^ 2 + z' ^ 2 = r ^ 2 \<and> - r \<le> z' \<and> z' \<le> r"
proof -
  obtain x' y' z' where e: "np_dot (rot_mat a b g) (px, py, pz) = (x', y', z')"
    by (metis prod_cases3)
  have n: "x' ^ 2 + y' ^ 2 + z' ^ 2 = r ^ 2"
    using rot_sq_norm [OF e] assms(2) by simp
  show ?thesis
    using e n sq_norm_z_bound [OF n assms(1)] by (simp add: axis_rotate_def)
qed

subsection \<open>Composition of the axis rotations\<close>

text \<open>
  C6. For all angles the matrix built by the program is the product
  \<open>Rz gamma \<cdot> Ry beta \<cdot> Rx alpha\<close> of the standard rotations about the axes, and for
  \<open>alpha = beta = gamma = 0\<close> it is the identity matrix.
\<close>

theorem rot_mat_product:
  "rot_mat a b g = mat_mul (Rz g) (mat_mul (Ry b) (Rx a)) \<and> rot_mat 0 0 0 = mat_identity"
  using rot_mat_is_product rot_mat_zero by simp

subsection \<open>Orthonormality\<close>

text \<open>
  C7. For all angles the matrix \<open>M\<close> built by the program satisfies
  \<open>M\<^sup>T \<cdot> M = 1\<close>, and \<open>axis_rotate\<close> with it preserves the Euclidean norm of every
  point.
\<close>

theorem rot_mat_orthonormal_norm:
  "mat_mul (mat_transpose (rot_mat a b g)) (rot_mat a b g) = mat_identity \<and>
   norm3 (axis_rotate P (rot_mat a b g)) = norm3 P"
proof -
  obtain x y z where P: "P = (x, y, z)" by (metis prod_cases3)
  obtain x' y' z' where e: "np_dot (rot_mat a b g) (x, y, z) = (x', y', z')" by (metis prod_cases3)
  have "norm3 (axis_rotate P (rot_mat a b g)) = norm3 P"
    using rot_sq_norm [OF e] e by (simp add: P axis_rotate_def norm3_def)
  then show ?thesis using rot_mat_orthonormal by simp
qed

section \<open>Single precision and the conversion to integers\<close>

lemma py_round_nonneg: "0 \<le> t \<Longrightarrow> 0 \<le> py_round t"
  by (simp add: py_round_def Let_def)

lemma py_round_of_int: "py_round (of_int n) = n"
  by (simp add: py_round_def)

lemma round_int64_nan: "round_int64 None = - (2 ^ 63)"
  by (simp add: round_int64_def)

lemma round_int64_small:
  "- (2 ^ 63) \<le> py_round t \<Longrightarrow> py_round t < 2 ^ 63 \<Longrightarrow> round_int64 (Some t) = py_round t"
  by (simp add: round_int64_def Let_def)

lemma f32_zero: "f32 0 = 0"
  by (simp add: f32_def)

lemma f32_binade:
  assumes "2 powr of_int e \<le> \<bar>t\<bar>" "\<bar>t\<bar> < 2 powr (of_int e + 1)"
  shows "f32 t = of_int (py_round (t / 2 powr (of_int e - 23))) * 2 powr (of_int e - 23)"
proof -
  have pos: "0 < \<bar>t\<bar>" using assms(1) by (smt (verit) powr_gt_zero)
  then have nz: "t \<noteq> 0" by simp
  have "\<lfloor>log 2 \<bar>t\<bar>\<rfloor> = e"
    using assms pos by (simp add: floor_log_eq_powr_iff)
  then show ?thesis using nz by (simp add: f32_def Let_def)
qed

lemma f32_binade0:
  assumes "1 \<le> \<bar>t\<bar>" "\<bar>t\<bar> < 2"
  shows "f32 t = of_int (py_round (t * 8388608)) / 8388608"
  using f32_binade [of 0 t] assms by (simp add: powr_neg_numeral)

lemma f32_binade1:
  assumes "2 \<le> \<bar>t\<bar>" "\<bar>t\<bar> < 4"
  shows "f32 t = of_int (py_round (t * 4194304)) / 4194304"
  using f32_binade [of 1 t] assms by (simp add: powr_neg_numeral)

lemma f32_nonneg: "0 \<le> t \<Longrightarrow> 0 \<le> f32 t"
  by (simp add: f32_def Let_def py_round_nonneg)

lemma f32_sum_nonneg: "0 \<le> f32 (f32 (x ^ 2) + f32 (y ^ 2))"
  by (intro f32_nonneg add_nonneg_nonneg) simp_all

section \<open>The mapper from the sphere to the image\<close>

lemma get_pix_on_img_range:
  assumes "r \<noteq> 0" "0 < h_img" "0 < w_img"
  shows "\<exists>row col. get_pix_on_img p r h_img w_img = Inr (row, col) \<and>
           0 \<le> row \<and> row < h_img \<and> 0 \<le> col \<and> col < w_img"
  using assms by (cases p) (simp add: get_pix_on_img_def Let_def)



section \<open>The projection pipeline\<close>

subsection \<open>Auxiliary facts\<close>

lemma projection_in_range:
  assumes "0 < r" "0 < h_img" "0 < w_img"
  shows "\<exists>row col. projection ov oh M pix r h_img w_img h_proj w_proj = Inr (row, col) \<and>
           0 \<le> row \<and> row < h_img \<and> 0 \<le> col \<and> col < w_img"
proof -
  obtain i j where pix: "pix = (i, j)" by (cases pix)
  let ?x = "f32 (of_int i + (ov - 0.5) * of_int h_proj)"
  let ?y = "f32 (of_int j + (oh - 0.5) * of_int w_proj)"
  let ?s = "f32 (f32 (?x ^ 2) + f32 (?y ^ 2))"
  have "0 < ?s + r ^ 2"
    using f32_sum_nonneg [of ?x ?y] assms(1) by (simp add: add_nonneg_pos)
  then have nz: "?s + r ^ 2 \<noteq> 0" by simp
  obtain P where P: "get_point_on_sphere_f32 (?x, ?y, f32 0) r = Inr P"
    using nz by (simp add: get_point_on_sphere_f32_def Let_def)
  have "r \<noteq> 0" using assms(1) by simp
  from get_pix_on_img_range [OF this assms(2,3), of "axis_rotate P M"] P
  show ?thesis by (simp add: projection_def pix Let_def)
qed

lemma f32_nine_fifths: "f32 (9 / 5) = 7549747 / 4194304"
  by (simp add: f32_binade0 py_round_def)

lemma f32_square: "f32 ((7549747 / 4194304) ^ 2) = 1698693 / 524288"
  by (simp add: f32_binade1 py_round_def power2_eq_square)

lemma f32_sum: "f32 (1698693 / 524288) = 1698693 / 524288"
  by (simp add: f32_binade1 py_round_def)

lemma f32_squares_sum:
  "f32 (f32 ((f32 (9 / 5)) ^ 2) + f32 ((f32 0) ^ 2)) = 1698693 / 524288"
proof -
  have "f32 ((f32 (9 / 5)) ^ 2) = 1698693 / 524288"
    by (simp only: f32_nine_fifths f32_square)
  moreover have "f32 ((f32 0) ^ 2) = 0"
    by (simp add: f32_zero)
  ultimately show ?thesis
    by (simp only: add_0_right f32_sum)
qed

lemma sphere_point_f32:
  "get_point_on_sphere_f32 (f32 (9 / 5), f32 0, f32 0) (9 / 5) =
     Inr (28311552 / 28311551 * (7549747 / 4194304), 0, 9 / 141557755)"
proof -
  have "get_point_on_sphere_f32 (f32 (9 / 5), f32 0, f32 0) (9 / 5) =
          (let s = 1698693 / 524288 :: real
           in if s + (9 / 5) ^ 2 = 0 then Inl ZeroDivisionError
              else (let k = 2 * (9 / 5) ^ 2 / (s + (9 / 5) ^ 2)
                    in Inr (k * f32 (9 / 5), k * f32 0, (k - 1) * (9 / 5))))"
    unfolding get_point_on_sphere_f32_def prod.case f32_squares_sum ..
  also have "\<dots> = Inr (28311552 / 28311551 * (7549747 / 4194304), 0, 9 / 141557755)"
    by (simp add: f32_zero f32_nine_fifths Let_def power2_eq_square)
  finally show ?thesis .
qed

lemma rot_quarter: "rot_mat 0 (pi / 2) 0 = ((0, 0, 1), (0, 1, 0), (- 1, 0, 0))"
  by (simp add: rot_mat_def)

lemma rotated_point_f32:
  "axis_rotate (28311552 / 28311551 * (7549747 / 4194304), 0, 9 / 141557755)
     (rot_mat 0 (pi / 2) 0) =
   (9 / 141557755, 0, - (28311552 / 28311551 * (7549747 / 4194304)))"
  by (simp add: axis_rotate_def np_dot_def rot_quarter)

lemma pixel_of_rotated_point:
  "get_pix_on_img (9 / 141557755, 0, - (28311552 / 28311551 * (7549747 / 4194304)))
     (9 / 5) 12 12 = Inr (4, 6)"
  by (simp add: get_pix_on_img_def np_arccos_def np_arctan2_def round_int64_def py_round_def)

lemma plane_point_3_6:
  "(of_int 3 + (0.4 - 0.5) * of_int 12 :: real) = 9 / 5"
  "(of_int 6 + (0 - 0.5) * of_int 12 :: real) = 0"
  by simp_all


subsection \<open>The pipeline leaves the domain of the inverse cosine\<close>

text \<open>
  C5. The claim excludes a domain error of the inverse cosine in the pipeline. With a
  12 by 12 source and output, \<open>offset_ver = 0.4\<close>, \<open>offset_hor = 0\<close>, \<open>r = 1.8\<close> and the
  rotation by \<open>beta = pi / 2\<close>, the output pixel \<open>(3, 6)\<close> has the plane point
  \<open>(1.8, 0, 0)\<close>; stored in single precision and squared in single precision it gives a
  rotated point with \<open>z / r < - 1\<close>, and \<open>projection\<close> returns the row
  \<open>- 2\<^sup>6\<^sup>3 mod 12 = 4\<close> left by the conversion of NaN, where exact arithmetic gives
  row 0.
\<close>

theorem projection_leaves_arccos_domain:
  "projection 0.4 0 (rot_mat 0 (pi / 2) 0) (3, 6) (9 / 5) 12 12 12 12 = Inr (- (2 ^ 63) mod 12, 6)"
proof -
  have "projection 0.4 0 (rot_mat 0 (pi / 2) 0) (3, 6) (9 / 5) 12 12 12 12 =
          (case get_point_on_sphere_f32 (f32 (9 / 5), f32 0, f32 0) (9 / 5) of
             Inl e \<Rightarrow> Inl e
           | Inr P \<Rightarrow> get_pix_on_img (axis_rotate P (rot_mat 0 (pi / 2) 0)) (9 / 5) 12 12)"
    unfolding projection_def prod.case Let_def plane_point_3_6 ..
  also have "\<dots> = Inr (4, 6)"
    by (simp only: sphere_point_f32 sum.case rotated_point_f32 pixel_of_rotated_point)
  finally show ?thesis by simp
qed

subsection \<open>The order of the stages\<close>



subsection \<open>The argument of the inverse cosine\<close>

text \<open>
  C10. The claim has the point of the sphere intersector on the sphere and the quotient
  \<open>z / r\<close> given to the inverse cosine in \<open>[- 1, 1]\<close> inside the pipeline. For the plane
  point \<open>(1.8, 0, 0)\<close> stored in single precision and \<open>r = 1.8\<close>, the point that
  \<open>get_point_on_sphere\<close> returns lies outside the sphere, \<open>axis_rotate\<close> by
  \<open>beta = pi / 2\<close> turns it to a point with \<open>z / r < - 1\<close>, which the clamp from above
  leaves as it is, the inverse cosine in \<open>get_pix_on_img\<close> is undefined there, and the
  row is the conversion of NaN.
\<close>

theorem pipeline_point_off_sphere:
  "get_point_on_sphere_f32 (f32 (9 / 5), f32 0, f32 0) (9 / 5) =
     Inr (28311552 / 28311551 * (7549747 / 4194304), 0, 9 / 141557755) \<and>
   (9 / 5) ^ 2 < (28311552 / 28311551 * (7549747 / 4194304)) ^ 2 + 0 ^ 2 + (9 / 141557755 :: real) ^ 2 \<and>
   axis_rotate (28311552 / 28311551 * (7549747 / 4194304), 0, 9 / 141557755)
     (rot_mat 0 (pi / 2) 0) =
     (9 / 141557755, 0, - (28311552 / 28311551 * (7549747 / 4194304))) \<and>
   - (28311552 / 28311551 * (7549747 / 4194304)) / (9 / 5) < (- 1 :: real) \<and>
   np_arccos (- (28311552 / 28311551 * (7549747 / 4194304)) / (9 / 5)) = None \<and>
   get_pix_on_img (9 / 141557755, 0, - (28311552 / 28311551 * (7549747 / 4194304)))
     (9 / 5) 12 12 = Inr (- (2 ^ 63) mod 12, 6)"
proof -
  have a: "(9 / 5) ^ 2 < (28311552 / 28311551 * (7549747 / 4194304)) ^ 2 + 0 ^ 2
             + (9 / 141557755 :: real) ^ 2"
    by (simp add: power2_eq_square)
  have b: "- (28311552 / 28311551 * (7549747 / 4194304)) / (9 / 5) < (- 1 :: real)"
    by simp
  have c: "np_arccos (- (28311552 / 28311551 * (7549747 / 4194304)) / (9 / 5)) = None"
    by (simp add: np_arccos_def)
  have d: "get_pix_on_img (9 / 141557755, 0, - (28311552 / 28311551 * (7549747 / 4194304)))
             (9 / 5) 12 12 = Inr (- (2 ^ 63) mod 12, 6)"
    using pixel_of_rotated_point by simp
  from sphere_point_f32 a rotated_point_f32 b c d show ?thesis
    by (intro conjI)
qed

section \<open>The sampling loop\<close>

subsection \<open>Auxiliary facts\<close>

lemma img_set_shape:
  "length (img_set buf p v) = length buf \<and>
   (i < length buf \<longrightarrow> length (img_set buf p v ! i) = length (buf ! i))"
proof (cases p)
  case (Pair a b)
  show ?thesis
  proof (cases "a = i")
    case True
    then show ?thesis using Pair by (simp add: img_set_def)
  next
    case False
    then show ?thesis using Pair by (simp add: img_set_def)
  qed
qed

lemma img_set_nth:
  assumes "i < length buf" "j < length (buf ! i)"
  shows "img_set buf p v ! i ! j = (if p = (i, j) then v else buf ! i ! j)"
proof (cases p)
  case (Pair a b)
  show ?thesis
  proof (cases "a = i")
    case True
    then show ?thesis using Pair assms by (cases "b = j") (simp_all add: img_set_def)
  next
    case False
    then show ?thesis using Pair assms by (simp add: img_set_def)
  qed
qed

lemma sample_loop_run:
  assumes "\<And>p. p \<in> set ps \<Longrightarrow>
             \<exists>q v. projection ov oh M (int (fst p), int (snd p)) r h w hp wp = Inr q \<and>
                   img_get src q = Inr v"
  shows "sample_loop ov oh M r h w hp wp src ps (buf, ws) =
           Inr (foldl (\<lambda>b p. img_set b p (source_colour ov oh M r h w hp wp src p)) buf ps,
                ws @ map (\<lambda>p. (p, source_colour ov oh M r h w hp wp src p)) ps)"
  using assms
proof (induction ps arbitrary: buf ws)
  case Nil
  then show ?case by simp
next
  case (Cons p rest)
  obtain q v where q: "projection ov oh M (int (fst p), int (snd p)) r h w hp wp = Inr q"
    and v: "img_get src q = Inr v"
    using Cons.prems [of p] by auto
  have c: "source_colour ov oh M r h w hp wp src p = v"
    using q v by (simp add: source_colour_def)
  have "\<And>p'. p' \<in> set rest \<Longrightarrow>
          \<exists>q v. projection ov oh M (int (fst p'), int (snd p')) r h w hp wp = Inr q \<and>
                img_get src q = Inr v"
    using Cons.prems by simp
  from Cons.IH [OF this, of "img_set buf p v" "ws @ [(p, v)]"] q v c
  show ?case by simp
qed

lemma fold_img_set_shape:
  "length (foldl (\<lambda>b p. img_set b p (c p)) buf ps) = length buf \<and>
   (\<forall>i < length buf. length (foldl (\<lambda>b p. img_set b p (c p)) buf ps ! i) = length (buf ! i))"
proof (induction ps arbitrary: buf)
  case Nil
  then show ?case by simp
next
  case (Cons p rest)
  show ?case
    using Cons.IH [of "img_set buf p (c p)"] img_set_shape [of buf p "c p"] by simp
qed

lemma fold_img_set_nth:
  assumes "i < length buf" "j < length (buf ! i)"
  shows "foldl (\<lambda>b p. img_set b p (c p)) buf ps ! i ! j =
           (if (i, j) \<in> set ps then c (i, j) else buf ! i ! j)"
  using assms
proof (induction ps arbitrary: buf)
  case Nil
  then show ?case by simp
next
  case (Cons p rest)
  let ?b = "img_set buf p (c p)"
  have i: "i < length ?b" using Cons.prems(1) img_set_shape [of buf p "c p" i] by simp
  have j: "j < length (?b ! i)" using Cons.prems img_set_shape [of buf p "c p" i] by simp
  have "foldl (\<lambda>b p. img_set b p (c p)) ?b rest ! i ! j =
          (if (i, j) \<in> set rest then c (i, j) else ?b ! i ! j)"
    using i j by (rule Cons.IH)
  moreover have "?b ! i ! j = (if p = (i, j) then c p else buf ! i ! j)"
    using Cons.prems by (rule img_set_nth)
  ultimately show ?case by auto
qed

lemma ndindex_distinct: "distinct (np_ndindex h w)"
  by (simp add: np_ndindex_def distinct_product)

lemma ndindex_set: "set (np_ndindex h w) = {0..<h} \<times> {0..<w}"
  by (simp add: np_ndindex_def)

lemma img_get_in_range:
  assumes "0 \<le> row" "row < int (length img)" "0 \<le> col" "col < int (img_width img)"
  shows "img_get img (row, col) = Inr (img ! nat row ! nat col)"
  using assms by (simp add: img_get_def Let_def)

lemma radius_pos:
  fixes s :: real
  assumes "0 < H" "0 < W" "0 < s"
  shows "0 < of_int (min H W) / 10 * s"
proof -
  have "0 < min H W" using assms(1,2) by simp
  then have "(0::real) < of_int (min H W) / 10" by simp
  then show ?thesis using assms(3) by (rule mult_pos_pos)
qed

lemma filled_is_sampled:
  assumes "0 \<le> H" "0 \<le> W"
  shows "foldl (\<lambda>b p. img_set b p (source_colour ov oh M r h w H W src p))
           (replicate (nat H) (replicate (nat W) z)) (np_ndindex (nat H) (nat W)) =
         sampled_image ov oh M r h w H W src"
    (is "?out = ?spec")
proof (rule nth_equalityI)
  let ?buf = "replicate (nat H) (replicate (nat W) z)"
  let ?c = "source_colour ov oh M r h w H W src"
  have len: "length ?out = nat H"
    using fold_img_set_shape [of ?c ?buf "np_ndindex (nat H) (nat W)"] by simp
  show "length ?out = length ?spec" using len by (simp add: sampled_image_def)
  fix i assume "i < length ?out"
  then have i: "i < nat H" using len by simp
  have li: "length (?out ! i) = nat W"
    using fold_img_set_shape [of ?c ?buf "np_ndindex (nat H) (nat W)"] i by simp
  show "?out ! i = ?spec ! i"
  proof (rule nth_equalityI)
    show "length (?out ! i) = length (?spec ! i)" using li i by (simp add: sampled_image_def)
    fix j assume "j < length (?out ! i)"
    then have j: "j < nat W" using li by simp
    have "?out ! i ! j = (if (i, j) \<in> set (np_ndindex (nat H) (nat W)) then ?c (i, j) else ?buf ! i ! j)"
      using i j by (intro fold_img_set_nth) simp_all
    then show "?out ! i ! j = ?spec ! i ! j"
      using i j by (simp add: ndindex_set sampled_image_def)
  qed
qed

lemma count_list_distinct: "distinct xs \<Longrightarrow> x \<in> set xs \<Longrightarrow> count_list xs x = 1"
  by (induction xs) auto

subsection \<open>Every output pixel is written once, from its projection\<close>

text \<open>
  C9. For a non-empty source image, a positive scale and positive output dimensions
  \<open>H\<close>, \<open>W\<close>, the main block ends without an error; the coordinates it has written to,
  in order, are the index pairs of the output array in row-major order, so every
  coordinate \<open>(i, j)\<close> is written exactly once; what is written there is the source
  colour at \<open>projection (i, j)\<close>, a valid source coordinate; and the output array is
  \<open>sampled_image\<close>, a function of the configuration and the source image alone, so a
  second run with the same configuration and source gives the same array and the same
  writes.
\<close>

theorem main_samples_every_pixel:
  assumes img: "arr_img \<noteq> []" "rectangular arr_img" "0 < img_width arr_img"
    and scale: "0 < cfg_scale cfg"
    and H: "H = (if cfg_prevent_scaling cfg then int (length arr_img) else cfg_h_proj cfg)"
    and W: "W = (if cfg_prevent_scaling cfg then int (img_width arr_img) else cfg_w_proj cfg)"
    and dims: "0 < H" "0 < W"
    and ij: "i < nat H" "j < nat W"
    and again: "cfg' = cfg" "arr_img' = arr_img"
  shows "\<exists>out log row col.
           main cfg arr_img = Inr (out, log) \<and>
           main cfg' arr_img' = Inr (out, log) \<and>
           map fst log = np_ndindex (nat H) (nat W) \<and>
           distinct (map fst log) \<and>
           set (map fst log) = {0..<nat H} \<times> {0..<nat W} \<and>
           count_list (map fst log) (i, j) = 1 \<and>
           out = sampled_image (cfg_offset_ver cfg) (cfg_offset_hor cfg)
                   (rot_mat (cfg_alpha cfg) (cfg_beta cfg) (cfg_gamma cfg))
                   (of_int (min H W) / 10 * cfg_scale cfg)
                   (int (length arr_img)) (int (img_width arr_img)) H W arr_img \<and>
           length out = nat H \<and> length (out ! i) = nat W \<and>
           projection (cfg_offset_ver cfg) (cfg_offset_hor cfg)
             (rot_mat (cfg_alpha cfg) (cfg_beta cfg) (cfg_gamma cfg)) (int i, int j)
             (of_int (min H W) / 10 * cfg_scale cfg)
             (int (length arr_img)) (int (img_width arr_img)) H W = Inr (row, col) \<and>
           0 \<le> row \<and> row < int (length arr_img) \<and> 0 \<le> col \<and> col < int (img_width arr_img) \<and>
           ((i, j), arr_img ! nat row ! nat col) \<in> set log \<and>
           out ! i ! j = arr_img ! nat row ! nat col"
proof -
  let ?ov = "cfg_offset_ver cfg" and ?oh = "cfg_offset_hor cfg"
  let ?M = "rot_mat (cfg_alpha cfg) (cfg_beta cfg) (cfg_gamma cfg)"
  let ?r = "of_int (min H W) / 10 * cfg_scale cfg"
  let ?h = "int (length arr_img)" and ?w = "int (img_width arr_img)"
  let ?ps = "np_ndindex (nat H) (nat W)"
  let ?c = "source_colour ?ov ?oh ?M ?r ?h ?w H W arr_img"
  let ?buf = "replicate (nat H) (replicate (nat W) (0, 0, 0)) :: image"
  let ?out = "sampled_image ?ov ?oh ?M ?r ?h ?w H W arr_img"
  let ?log = "map (\<lambda>p. (p, ?c p)) ?ps"
  have r: "0 < ?r" using dims scale by (rule radius_pos)
  have h: "0 < ?h" using img(1) by simp
  have w: "0 < ?w" using img(3) by simp
  have z: "np_zeros H W = Inr ?buf" using dims by (simp add: np_zeros_def)
  have ok: "\<exists>q v. projection ?ov ?oh ?M (int (fst p), int (snd p)) ?r ?h ?w H W = Inr q \<and>
                 img_get arr_img q = Inr v" for p
  proof -
    obtain row col where "projection ?ov ?oh ?M (int (fst p), int (snd p)) ?r ?h ?w H W = Inr (row, col)"
      and "0 \<le> row" "row < ?h" "0 \<le> col" "col < ?w"
      using projection_in_range [OF r h w] by blast
    then show ?thesis using img_get_in_range by blast
  qed
  have run: "sample_loop ?ov ?oh ?M ?r ?h ?w H W arr_img ?ps (?buf, []) = Inr (?out, ?log)"
  proof -
    have "sample_loop ?ov ?oh ?M ?r ?h ?w H W arr_img ?ps (?buf, []) =
            Inr (foldl (\<lambda>b p. img_set b p (?c p)) ?buf ?ps, [] @ ?log)"
      using ok by (intro sample_loop_run) blast
    moreover have "foldl (\<lambda>b p. img_set b p (?c p)) ?buf ?ps = ?out"
      using dims by (intro filled_is_sampled) simp_all
    ultimately show ?thesis by simp
  qed
  have m: "main cfg arr_img = Inr (?out, ?log)"
    using z run H W by (simp add: main_def Let_def)
  have m': "main cfg' arr_img' = Inr (?out, ?log)"
    using m again by simp
  have fst_log: "map fst ?log = ?ps" by (simp add: comp_def)
  have d: "distinct (map fst ?log)" unfolding fst_log by (rule ndindex_distinct)
  have s: "set (map fst ?log) = {0..<nat H} \<times> {0..<nat W}" unfolding fst_log by (rule ndindex_set)
  have mem: "(i, j) \<in> set ?ps" using ij by (simp add: ndindex_set)
  have cnt: "count_list (map fst ?log) (i, j) = 1"
    unfolding fst_log using ndindex_distinct mem by (rule count_list_distinct)
  have lo: "length ?out = nat H" by (simp add: sampled_image_def)
  have li: "length (?out ! i) = nat W" using ij by (simp add: sampled_image_def)
  obtain row col where q: "projection ?ov ?oh ?M (int i, int j) ?r ?h ?w H W = Inr (row, col)"
    and rg: "0 \<le> row" "row < ?h" "0 \<le> col" "col < ?w"
    using projection_in_range [OF r h w] by blast
  have cij: "?c (i, j) = arr_img ! nat row ! nat col"
    using q img_get_in_range [OF rg] by (simp add: source_colour_def)
  have px: "?out ! i ! j = arr_img ! nat row ! nat col"
    using ij cij by (simp add: sampled_image_def)
  have inlog: "((i, j), arr_img ! nat row ! nat col) \<in> set ?log"
    using mem cij by force
  have eq: "?out = ?out" ..
  from m m' fst_log d s cnt eq lo li q rg inlog px show ?thesis
    by (intro exI [of _ ?out] exI [of _ ?log] exI [of _ row] exI [of _ col] conjI)
qed

theorem main_samples_every_pixel_witness:
  "[[(1, 2, 3), (4, 5, 6), (7, 8, 9)], [(10, 11, 12), (13, 14, 15), (16, 17, 18)]] \<noteq> ([] :: image) \<and>
   rectangular [[(1, 2, 3), (4, 5, 6), (7, 8, 9)], [(10, 11, 12), (13, 14, 15), (16, 17, 18)]] \<and>
   0 < img_width [[(1, 2, 3), (4, 5, 6), (7, 8, 9)], [(10, 11, 12), (13, 14, 15), (16, 17, 18)]] \<and>
   (0 :: real) < 1.5 \<and> (0 :: int) < 3 \<and> (0 :: int) < 2 \<and> (2 :: nat) < nat 3 \<and> (1 :: nat) < nat 2 \<and>
   (\<exists>out log row col.
      main \<lparr>cfg_prevent_scaling = False, cfg_w_proj = 2, cfg_h_proj = 3, cfg_offset_hor = 0,
            cfg_offset_ver = 0.4, cfg_scale = 1.5, cfg_alpha = 0, cfg_beta = - 5 * pi / 180,
            cfg_gamma = 0\<rparr>
        [[(1, 2, 3), (4, 5, 6), (7, 8, 9)], [(10, 11, 12), (13, 14, 15), (16, 17, 18)]]
        = Inr (out, log) \<and>
      map fst log = np_ndindex 3 2 \<and>
      distinct (map fst log) \<and>
      set (map fst log) = {0..<3} \<times> {0..<2} \<and>
      count_list (map fst log) (2, 1) = 1 \<and>
      out = sampled_image 0.4 0 (rot_mat 0 (- 5 * pi / 180) 0) (of_int (min 3 2) / 10 * 1.5) 2 3 3 2
              [[(1, 2, 3), (4, 5, 6), (7, 8, 9)], [(10, 11, 12), (13, 14, 15), (16, 17, 18)]] \<and>
      length out = 3 \<and> length (out ! 2) = 2 \<and>
      projection 0.4 0 (rot_mat 0 (- 5 * pi / 180) 0) (2, 1) (of_int (min 3 2) / 10 * 1.5)
        2 3 3 2 = Inr (row, col) \<and>
      0 \<le> row \<and> row < 2 \<and> 0 \<le> col \<and> col < 3 \<and>
      ((2, 1), [[(1, 2, 3), (4, 5, 6), (7, 8, 9)], [(10, 11, 12), (13, 14, 15), (16, 17, 18)]]
                 ! nat row ! nat col) \<in> set log \<and>
      out ! 2 ! 1 =
        [[(1, 2, 3), (4, 5, 6), (7, 8, 9)], [(10, 11, 12), (13, 14, 15), (16, 17, 18)]]
          ! nat row ! nat col)"
proof -
  let ?img = "[[(1, 2, 3), (4, 5, 6), (7, 8, 9)], [(10, 11, 12), (13, 14, 15), (16, 17, 18)]] :: image"
  let ?cfg = "\<lparr>cfg_prevent_scaling = False, cfg_w_proj = 2, cfg_h_proj = 3, cfg_offset_hor = 0,
            cfg_offset_ver = 0.4, cfg_scale = 1.5, cfg_alpha = 0, cfg_beta = - 5 * pi / 180,
            cfg_gamma = 0\<rparr>"
  have a: "?img \<noteq> []" by simp
  have b: "rectangular ?img" by (simp add: rectangular_def img_width_def)
  have c: "0 < img_width ?img" by (simp add: img_width_def)
  have w: "img_width ?img = 3" by (simp add: img_width_def)
  have d: "0 < cfg_scale ?cfg" by simp
  have H: "(3 :: int) = (if cfg_prevent_scaling ?cfg then int (length ?img) else cfg_h_proj ?cfg)"
    by simp
  have W: "(2 :: int) = (if cfg_prevent_scaling ?cfg then int (img_width ?img) else cfg_w_proj ?cfg)"
    by simp
  have e: "(0 :: int) < 3" "(0 :: int) < 2" "(2 :: nat) < nat 3" "(1 :: nat) < nat 2" by simp_all
  from main_samples_every_pixel [OF a b c d H W e refl refl]
  show ?thesis
    using a b c by (simp add: w)
qed

end
